theory Spec2Isabelle
  imports Main
begin

section \<open>Errors\<close>

text \<open>
  The source names three error values: \<open>task.ERR_SKIP_TASK\<close> (a sentinel),
  \<open>errno.ERR_NOT_A_BLOCK_DEVICE\<close> and \<open>errno.ERR_GET_DEVICE_UUID_FAILED\<close>.
  Every other entry of the error catalogue is \<open>ERR_CODE n\<close>. The call \<open>ec.F(format, args)\<close>
  keeps the kind and attaches the formatted description.
\<close>

datatype errno = ERR_NOT_A_BLOCK_DEVICE | ERR_GET_DEVICE_UUID_FAILED | ERR_CODE nat

datatype error = ERR_SKIP_TASK | Errno errno string

definition F :: "errno \<Rightarrow> string \<Rightarrow> error" where
  "F ec description = Errno ec description"

section \<open>Strings\<close>

text \<open>A Go string is a byte sequence; \<open>strings.Contains\<close> looks for a byte substring.\<close>

fun HasPrefix :: "string \<Rightarrow> string \<Rightarrow> bool" where
  "HasPrefix s [] = True"
| "HasPrefix [] (p # ps) = False"
| "HasPrefix (c # cs) (p # ps) = (c = p \<and> HasPrefix cs ps)"

fun Contains :: "string \<Rightarrow> string \<Rightarrow> bool" where
  "Contains [] substr = (substr = [])"
| "Contains (c # cs) substr = (HasPrefix (c # cs) substr \<or> Contains cs substr)"

text \<open>\<open>fmt.Sprintf("%d", n)\<close> for a Go \<open>int\<close>: signed decimal.\<close>

fun digits :: "nat \<Rightarrow> string" where
  "digits n = (if n < 10 then [char_of (48 + n)] else digits (n div 10) @ [char_of (48 + n mod 10)])"

declare digits.simps [simp del]

definition Sprintf_d :: "int \<Rightarrow> string" where
  "Sprintf_d i = (if i < 0 then CHR ''-'' # digits (nat (- i)) else digits (nat i))"

section \<open>Constants of format.go\<close>

definition DEFAULT_CHUNKFILE_SIZE :: int where
  "DEFAULT_CHUNKFILE_SIZE = 16 * 1024 * 1024"

definition WARNING_EDIT :: string where
  "WARNING_EDIT = ''GENERATED BY CURVEADM, DONT EDIT THIS''"

definition SIGNATURE_NOT_A_BLOCK_DEVICE :: string where
  "SIGNATURE_NOT_A_BLOCK_DEVICE = ''not a block device''"

subsection \<open>The pattern \<open>REEGX_DEVICE_UUID = "^.{8}-.{4}-.{4}-.{4}-.{12}$"\<close>\<close>

text \<open>
  Go's \<open>regexp\<close> reads the text rune by rune with \<open>utf8.DecodeRuneInString\<close>: a
  well-formed UTF-8 sequence of 2 to 4 bytes is one rune, every other byte is a rune of
  width 1. \<open>first\<close> gives, for a leading byte of a multi-byte sequence, the size and the
  range the second byte must lie in. The dot matches every rune but the newline; without
  the \<open>m\<close> flag, \<open>^\<close> and \<open>$\<close> are the two ends of the text.
\<close>

definition first :: "nat \<Rightarrow> (nat \<times> nat \<times> nat) option" where
  "first b =
     (if 0xC2 \<le> b \<and> b \<le> 0xDF then Some (2, 0x80, 0xBF)
      else if b = 0xE0 then Some (3, 0xA0, 0xBF)
      else if (0xE1 \<le> b \<and> b \<le> 0xEC) \<or> b = 0xEE \<or> b = 0xEF then Some (3, 0x80, 0xBF)
      else if b = 0xED then Some (3, 0x80, 0x9F)
      else if b = 0xF0 then Some (4, 0x90, 0xBF)
      else if 0xF1 \<le> b \<and> b \<le> 0xF3 then Some (4, 0x80, 0xBF)
      else if b = 0xF4 then Some (4, 0x80, 0x8F)
      else None)"

definition between :: "nat \<Rightarrow> nat \<Rightarrow> char \<Rightarrow> bool" where
  "between lo hi c = (lo \<le> of_char c \<and> of_char c \<le> hi)"

definition rune_width :: "string \<Rightarrow> nat" where
  "rune_width s =
     (case s of
        [] \<Rightarrow> 0
      | s0 # _ \<Rightarrow>
          (case first (of_char s0) of
             None \<Rightarrow> 1
           | Some (sz, lo, hi) \<Rightarrow>
               if length s < sz then 1
               else if \<not> between lo hi (s ! 1) then 1
               else if sz \<le> 2 then 2
               else if \<not> between 0x80 0xBF (s ! 2) then 1
               else if sz \<le> 3 then 3
               else if \<not> between 0x80 0xBF (s ! 3) then 1
               else 4))"

definition dot :: "string \<Rightarrow> string option" where
  "dot s = (case s of [] \<Rightarrow> None
            | c # _ \<Rightarrow> if c = CHR 0x0A then None else Some (drop (rune_width s) s))"

fun dots :: "nat \<Rightarrow> string \<Rightarrow> string option" where
  "dots 0 s = Some s"
| "dots (Suc n) s = (case dot s of None \<Rightarrow> None | Some r \<Rightarrow> dots n r)"

definition dash :: "string \<Rightarrow> string option" where
  "dash s = (case s of [] \<Rightarrow> None | c # r \<Rightarrow> if c = CHR ''-'' then Some r else None)"

definition group_then :: "nat \<Rightarrow> (string \<Rightarrow> bool) \<Rightarrow> string \<Rightarrow> bool" where
  "group_then n k s =
     (case dots n s of None \<Rightarrow> False
      | Some r \<Rightarrow> (case dash r of None \<Rightarrow> False | Some r' \<Rightarrow> k r'))"

text \<open>\<open>len(pattern.FindStringSubmatch(s)) > 0\<close>: the anchored pattern matches the whole text.\<close>

definition match_REEGX_DEVICE_UUID :: "string \<Rightarrow> bool" where
  "match_REEGX_DEVICE_UUID s =
     group_then 8 (group_then 4 (group_then 4 (group_then 4 (\<lambda>r. dots 12 r = Some [])))) s"

section \<open>Variables shared between steps\<close>

text \<open>
  Steps communicate through pointers to variables. \<open>svar\<close> names the string variables the
  source takes the address of: the locals of \<open>NewFormatChunkfilePoolTask\<close>
  (\<open>oldContainerId\<close>, \<open>containerId\<close>, \<open>oldUUID\<close>, \<open>formatScript\<close>), the field \<open>s.uuid\<close> of
  the edit step, and the locals \<open>express2del\<close>, \<open>express2add\<close> of \<open>execute\<close>. \<open>bvar\<close> names
  the one boolean: the local \<open>success\<close> of \<open>execute\<close>.
\<close>

datatype svar = OldContainerId | ContainerId | OldUUID | FormatScript | S_uuid
  | Express2del | Express2add

datatype bvar = Success

record store =
  strs :: "svar \<Rightarrow> string"
  bools :: "bvar \<Rightarrow> bool"

type_synonym LambdaType = "store \<Rightarrow> error option \<times> store"

section \<open>Steps of package \<open>step\<close>\<close>

text \<open>
  One constructor for each struct the source builds, its arguments in the order the
  fields are listed below; a pointer field holds the name of the variable it points to.
  \<^item> \<open>CopyFile Source Dest NoClobber ExecOptions\<close>
  \<^item> \<open>BlockId Device Format MatchTag Out ExecOptions\<close>
  \<^item> \<open>Lambda Lambda\<close>
  \<^item> \<open>Sed Files Expression InPlace ExecOptions\<close>
  \<^item> \<open>ListContainers ShowAll Format Quiet Filter Out ExecOptions\<close>
  \<^item> \<open>UmountFilesystem Directorys IgnoreUmounted IgnoreNotFound ExecOptions\<close>
  \<^item> \<open>CreateDirectory Paths ExecOptions\<close>
  \<^item> \<open>CreateFilesystem Device ExecOptions\<close>
  \<^item> \<open>MountFilesystem Source Directory ExecOptions\<close>
  \<^item> \<open>PullImage Image ExecOptions\<close>
  \<^item> \<open>CreateContainer Image Command Entrypoint Name Remove Volumes Out ExecOptions\<close>
  \<^item> \<open>InstallFile ContainerId ContainerDestPath Content ExecOptions\<close>
  \<^item> \<open>StartContainer ContainerId ExecOptions\<close>
  \<open>exec_options\<close> is what \<open>curveadm.ExecOptions()\<close> returns, kept opaque.
\<close>

datatype exec_options = ExecOpts string

datatype Volume = Volume string string

datatype step =
    CopyFile string string bool exec_options
  | BlockId string string string svar exec_options
  | Lambda LambdaType
  | Sed "string list" svar bool exec_options
  | ListContainers bool string bool string svar exec_options
  | UmountFilesystem "string list" bool bool exec_options
  | CreateDirectory "string list" exec_options
  | CreateFilesystem string exec_options
  | MountFilesystem string string exec_options
  | PullImage string exec_options
  | CreateContainer string string string string bool "Volume list" svar exec_options
  | InstallFile svar string svar exec_options
  | StartContainer svar exec_options

datatype kind = K_CopyFile | K_BlockId | K_Lambda | K_Sed | K_ListContainers
  | K_UmountFilesystem | K_CreateDirectory | K_CreateFilesystem | K_MountFilesystem
  | K_PullImage | K_CreateContainer | K_InstallFile | K_StartContainer | K_Step2EditFSTab

fun kind_of :: "step \<Rightarrow> kind" where
  "kind_of (CopyFile _ _ _ _) = K_CopyFile"
| "kind_of (BlockId _ _ _ _ _) = K_BlockId"
| "kind_of (Lambda _) = K_Lambda"
| "kind_of (Sed _ _ _ _) = K_Sed"
| "kind_of (ListContainers _ _ _ _ _ _) = K_ListContainers"
| "kind_of (UmountFilesystem _ _ _ _) = K_UmountFilesystem"
| "kind_of (CreateDirectory _ _) = K_CreateDirectory"
| "kind_of (CreateFilesystem _ _) = K_CreateFilesystem"
| "kind_of (MountFilesystem _ _ _) = K_MountFilesystem"
| "kind_of (PullImage _ _) = K_PullImage"
| "kind_of (CreateContainer _ _ _ _ _ _ _ _) = K_CreateContainer"
| "kind_of (InstallFile _ _ _ _) = K_InstallFile"
| "kind_of (StartContainer _ _) = K_StartContainer"

text \<open>The variable a command step writes its output to, when it has an \<open>Out\<close> field.\<close>

fun Out :: "step \<Rightarrow> svar option" where
  "Out (BlockId _ _ _ out _) = Some out"
| "Out (ListContainers _ _ _ _ out _) = Some out"
| "Out (CreateContainer _ _ _ _ _ _ out _) = Some out"
| "Out _ = None"

section \<open>Collaborators that are not part of format.go\<close>

text \<open>
  The code of the command steps, the configuration, the layout, the clock and the hash
  are outside format.go; they are parameters of the model, so every theorem holds for
  each behaviour they may have.
  \<^item> \<open>remote\<close>: what executing a command step does. It gets the step (its literal fields),
    the current values of the string variables (to dereference its pointer fields) and
    the state \<open>'w\<close> of everything outside the process; it gives the error the step
    returns, the value left in its \<open>Out\<close> variable, and the new outside state.
  \<^item> \<open>GetHost\<close>: \<open>curveadm.GetHost\<close>, the host lookup; \<open>ExecOptions\<close>: \<open>curveadm.ExecOptions()\<close>.
  \<^item> \<open>GetFSTabPath\<close>: \<open>os.GetFSTabPath()\<close>; \<open>Now\<close>: \<open>time.Now().Format("2006-01-02")\<close>.
  \<^item> \<open>MD5Sum\<close>: \<open>utils.MD5Sum\<close>; \<open>layout\<close>: \<open>topology.GetCurveBSProjectLayout()\<close>;
    \<open>FORMAT\<close>: \<open>scripts.FORMAT\<close>.
\<close>

datatype HostConfig = HostConfig (GetSSHConfig: string)

record Layout =
  ChunkfilePoolRootDir :: string
  ToolsBinDir :: string
  FormatBinaryPath :: string
  ChunkfilePoolDir :: string
  ChunkfilePoolMetaPath :: string

record 'w collab =
  remote :: "step \<Rightarrow> (svar \<Rightarrow> string) \<Rightarrow> 'w \<Rightarrow> error option \<times> string \<times> 'w"
  GetHost :: "string \<Rightarrow> error + HostConfig"
  ExecOptions :: exec_options
  GetFSTabPath :: string
  Now :: "'w \<Rightarrow> string"
  MD5Sum :: "string \<Rightarrow> string"
  layout :: Layout
  FORMAT :: string

section \<open>Executing a step\<close>

text \<open>
  The state of a run: the shared variables, the outside state, the mutex of the memory
  storage with the number of transactions begun, and a log of the steps invoked, each
  with whether the mutex was held at that moment. The log is an observer: no step reads it.
\<close>

record 'w env =
  vars :: store
  world :: 'w
  mutex :: bool
  tx_count :: nat
  trace :: "(step \<times> bool) list"

text \<open>A command step hands itself to the remote side and stores the output in \<open>Out\<close>.\<close>

definition command_Execute :: "'w collab \<Rightarrow> step \<Rightarrow> 'w env \<Rightarrow> error option \<times> 'w env" where
  "command_Execute c st e =
     (case remote c st (strs (vars e)) (world e) of
        (err, out, w) \<Rightarrow>
          (err, e\<lparr>vars := (case Out st of
                              None \<Rightarrow> vars e
                            | Some x \<Rightarrow> (vars e)\<lparr>strs := (strs (vars e))(x := out)\<rparr>),
                   world := w\<rparr>))"

text \<open>A lambda step runs its closure on the shared variables.\<close>

definition lambda_Execute :: "LambdaType \<Rightarrow> 'w env \<Rightarrow> error option \<times> 'w env" where
  "lambda_Execute f e = (case f (vars e) of (err, m) \<Rightarrow> (err, e\<lparr>vars := m\<rparr>))"

definition logged :: "step \<Rightarrow> 'w env \<Rightarrow> 'w env" where
  "logged st e = e\<lparr>trace := trace e @ [(st, mutex e)]\<rparr>"

definition step_Execute :: "'w collab \<Rightarrow> step \<Rightarrow> 'w env \<Rightarrow> error option \<times> 'w env" where
  "step_Execute c st e =
     (case st of
        Lambda f \<Rightarrow> lambda_Execute f (logged st e)
      | _ \<Rightarrow> command_Execute c st (logged st e))"

section \<open>format.go\<close>

record step2EditFSTab =
  host :: string
  device :: string
  mountPoint :: string
  oldUUID :: svar
  skipAdd :: bool

text \<open>
  The field \<open>uuid\<close> of the struct is the variable \<open>S_uuid\<close>, because the source passes its
  address \<open>&s.uuid\<close> to two steps; the field \<open>curveadm\<close> is the collaborator record.
\<close>

definition skipFormat :: "svar \<Rightarrow> LambdaType" where
  "skipFormat containerId =
     (\<lambda>m. if length (strs m containerId) > 0 then (Some ERR_SKIP_TASK, m) else (None, m))"

definition checkDeviceUUID :: "string \<Rightarrow> string \<Rightarrow> bvar \<Rightarrow> svar \<Rightarrow> LambdaType" where
  "checkDeviceUUID h dev success uuid =
     (\<lambda>m. if \<not> bools m success then
             (if Contains (strs m uuid) SIGNATURE_NOT_A_BLOCK_DEVICE
              then (Some (F ERR_NOT_A_BLOCK_DEVICE (''host='' @ h @ '' device='' @ dev)), m)
              else (Some (F ERR_GET_DEVICE_UUID_FAILED
                      (''host='' @ h @ '' device='' @ dev @ '' uuid='' @ strs m uuid)), m))
           else if \<not> match_REEGX_DEVICE_UUID (strs m uuid)
             then (Some (F ERR_GET_DEVICE_UUID_FAILED
                      (''host='' @ h @ '' device='' @ dev @ '' uuid='' @ strs m uuid)), m)
           else (None, m))"

definition expression :: "step2EditFSTab \<Rightarrow> svar \<Rightarrow> svar \<Rightarrow> LambdaType" where
  "expression s express2del express2add =
     (\<lambda>m. (None,
        m\<lparr>strs := (strs m)
            (express2del := ''/UUID='' @ strs m (oldUUID s) @ ''/d'',
             express2add := ''$ a UUID='' @ strs m S_uuid @ ''  '' @ mountPoint s
                @ ''  ext4  rw,errors=remount-ro  0  0  # '' @ WARNING_EDIT)\<rparr>))"

text \<open>
  \<open>execute\<close>, first half: the locals are declared with their zero values, then the list
  of sub-steps is built. \<open>backup\<close>, \<open>probe\<close> and \<open>validate\<close> are its first three entries.
\<close>

definition locals :: "'w env \<Rightarrow> 'w env" where
  "locals e = e\<lparr>vars := (vars e)\<lparr>strs := (strs (vars e))(Express2del := [], Express2add := []),
                                  bools := (bools (vars e))(Success := False)\<rparr>\<rparr>"

definition backup :: "'w collab \<Rightarrow> 'w env \<Rightarrow> step" where
  "backup c e = CopyFile (GetFSTabPath c)
     (GetFSTabPath c @ ''-'' @ Now c (world e) @ ''.backup'') True (ExecOptions c)"

definition probe :: "'w collab \<Rightarrow> step2EditFSTab \<Rightarrow> step" where
  "probe c s = BlockId (device s) ''value'' ''UUID'' S_uuid (ExecOptions c)"

definition validate :: "step2EditFSTab \<Rightarrow> step" where
  "validate s = Lambda (checkDeviceUUID (host s) (device s) Success S_uuid)"

definition sub_steps :: "'w collab \<Rightarrow> step2EditFSTab \<Rightarrow> 'w env \<Rightarrow> step list" where
  "sub_steps c s e =
     [backup c e,
      probe c s,
      validate s,
      Lambda (expression s Express2del Express2add)]
     @ (if length (strs (vars e) (oldUUID s)) > 0
        then [Sed [GetFSTabPath c] Express2del True (ExecOptions c)] else [])
     @ (if \<not> skipAdd s
        then [Sed [GetFSTabPath c] Express2add True (ExecOptions c)] else [])"

text \<open>\<open>execute\<close>, second half: the loop returns at the first error.\<close>

fun run_steps :: "'w collab \<Rightarrow> step list \<Rightarrow> 'w env \<Rightarrow> error option \<times> 'w env" where
  "run_steps c [] e = (None, e)"
| "run_steps c (st # sts) e =
     (case step_Execute c st e of
        (Some err, e') \<Rightarrow> (Some err, e')
      | (None, e') \<Rightarrow> run_steps c sts e')"

definition execute :: "'w collab \<Rightarrow> step2EditFSTab \<Rightarrow> 'w env \<Rightarrow> error option \<times> 'w env" where
  "execute c s e = run_steps c (sub_steps c s (locals e)) (locals e)"

text \<open>
  Modelled from the spec: \<open>utils.SafeMap.TX\<close> (the memory storage's transaction) is not
  under src/. The spec: it executes \<open>fn\<close> while holding the store's single
  mutual-exclusion lock and forwards \<open>fn\<close>'s error (or nil) unchanged. The model takes the
  lock, runs \<open>fn\<close> and releases the lock; it starts where the lock has been acquired
  (waiting for another holder is not part of a sequential model).
\<close>

definition TX :: "('w env \<Rightarrow> error option \<times> 'w env) \<Rightarrow> 'w env \<Rightarrow> error option \<times> 'w env" where
  "TX fn e =
     (case fn (e\<lparr>mutex := True, tx_count := tx_count e + 1\<rparr>) of
        (err, e') \<Rightarrow> (err, e'\<lparr>mutex := False\<rparr>))"

definition Execute :: "'w collab \<Rightarrow> step2EditFSTab \<Rightarrow> 'w env \<Rightarrow> error option \<times> 'w env" where
  "Execute c s e = TX (execute c s) e"

definition device2ContainerName :: "'w collab \<Rightarrow> string \<Rightarrow> string" where
  "device2ContainerName c dev = ''curvebs-format-'' @ MD5Sum c dev"

section \<open>The task\<close>

text \<open>
  The values a task holds as \<open>task.Step\<close>: a step of package \<open>step\<close>, or the composite
  \<open>step2EditFSTab\<close> of format.go.
\<close>

datatype Step = Basic step | EditFSTab step2EditFSTab

fun Kind :: "Step \<Rightarrow> kind" where
  "Kind (Basic st) = kind_of st"
| "Kind (EditFSTab _) = K_Step2EditFSTab"

text \<open>
  \<open>heap\<close> holds the variables the constructor of a task declares and its steps point to;
  they live as long as the task.
\<close>

record Task =
  name :: string
  subname :: string
  sshConfig :: string
  steps :: "Step list"
  heap :: store

text \<open>
  Modelled from the spec: \<open>task.NewTask\<close>, \<open>Task.AddStep\<close> and \<open>Task.Execute\<close> are not under
  src/. The spec: \<open>NewTask(name, subtitle, hostBinding)\<close> gives a task, \<open>AddStep(step)\<close>
  appends, and \<open>Execute\<close> runs every step in order, short-circuiting on the first
  non-continue outcome; a skip-task outcome ends the run and is reported as a successful
  no-op, a failure is returned verbatim.
\<close>

definition NewTask :: "string \<Rightarrow> string \<Rightarrow> string \<Rightarrow> Task" where
  "NewTask n sub ssh =
     \<lparr>name = n, subname = sub, sshConfig = ssh, steps = [],
      heap = \<lparr>strs = (\<lambda>_. []), bools = (\<lambda>_. False)\<rparr>\<rparr>"

definition AddStep :: "Task \<Rightarrow> Step \<Rightarrow> Task" where
  "AddStep t s = t\<lparr>steps := steps t @ [s]\<rparr>"

datatype outcome = Succeeded | Skipped | Failed error

fun Step_Execute :: "'w collab \<Rightarrow> Step \<Rightarrow> 'w env \<Rightarrow> error option \<times> 'w env" where
  "Step_Execute c (Basic st) e = step_Execute c st e"
| "Step_Execute c (EditFSTab s) e = Execute c s e"

fun run_task :: "'w collab \<Rightarrow> Step list \<Rightarrow> 'w env \<Rightarrow> outcome \<times> 'w env" where
  "run_task c [] e = (Succeeded, e)"
| "run_task c (s # ss) e =
     (case Step_Execute c s e of
        (None, e') \<Rightarrow> run_task c ss e'
      | (Some err, e') \<Rightarrow> (if err = ERR_SKIP_TASK then Skipped else Failed err, e'))"

definition Task_Execute :: "'w collab \<Rightarrow> Task \<Rightarrow> 'w \<Rightarrow> outcome \<times> 'w env" where
  "Task_Execute c t w =
     run_task c (steps t) \<lparr>vars = heap t, world = w, mutex = False, tx_count = 0, trace = []\<rparr>"

subsection \<open>\<open>NewFormatChunkfilePoolTask\<close>\<close>

record FormatConfig =
  fcHost :: string
  fcDevice :: string
  fcMountPoint :: string
  fcFormatPercent :: int
  fcContainerImage :: string

definition NewFormatChunkfilePoolTask :: "'w collab \<Rightarrow> FormatConfig \<Rightarrow> error + Task" where
  "NewFormatChunkfilePoolTask c fc =
     (case GetHost c (fcHost fc) of
        Inl err \<Rightarrow> Inl err
      | Inr hc \<Rightarrow>
         (let dev = fcDevice fc;
              mp = fcMountPoint fc;
              usagePercent = fcFormatPercent fc;
              sub = ''host='' @ fcHost fc @ '' device='' @ dev @ '' mountPoint='' @ mp
                    @ '' usage='' @ Sprintf_d usagePercent @ ''%'';
              t = NewTask ''Start Format Chunkfile Pool'' sub (GetSSHConfig hc);
              containerName = device2ContainerName c dev;
              chunkfilePoolRootDir = ChunkfilePoolRootDir (layout c);
              t = t\<lparr>heap := (heap t)\<lparr>strs := (strs (heap t))(FormatScript := FORMAT c)\<rparr>\<rparr>;
              formatScriptPath = ToolsBinDir (layout c) @ ''/format.sh'';
              formatCommand = formatScriptPath @ '' '' @ FormatBinaryPath (layout c)
                    @ '' '' @ Sprintf_d usagePercent @ '' '' @ Sprintf_d DEFAULT_CHUNKFILE_SIZE
                    @ '' '' @ ChunkfilePoolDir (layout c) @ '' '' @ ChunkfilePoolMetaPath (layout c);
              t = AddStep t (Basic (ListContainers True (CHR 0x27 # ''{{.ID}}'' @ [CHR 0x27]) True
                     (''name='' @ containerName) OldContainerId (ExecOptions c)));
              t = AddStep t (Basic (Lambda (skipFormat OldContainerId)));
              t = AddStep t (Basic (BlockId dev ''value'' ''UUID'' OldUUID (ExecOptions c)));
              t = AddStep t (Basic (UmountFilesystem [dev] True True (ExecOptions c)));
              t = AddStep t (Basic (CreateDirectory [mp] (ExecOptions c)));
              t = AddStep t (Basic (CreateFilesystem dev (ExecOptions c)));
              t = AddStep t (Basic (MountFilesystem dev mp (ExecOptions c)));
              t = AddStep t (EditFSTab \<lparr>host = fcHost fc, device = dev, mountPoint = mp,
                     oldUUID = OldUUID, skipAdd = False\<rparr>);
              t = AddStep t (Basic (PullImage (fcContainerImage fc) (ExecOptions c)));
              t = AddStep t (Basic (CreateContainer (fcContainerImage fc) formatCommand
                     ''/bin/bash'' containerName True [Volume mp chunkfilePoolRootDir]
                     ContainerId (ExecOptions c)));
              t = AddStep t (Basic (InstallFile ContainerId formatScriptPath FormatScript
                     (ExecOptions c)));
              t = AddStep t (Basic (StartContainer ContainerId (ExecOptions c)))
          in Inr t))"

section \<open>A host to run the steps on\<close>

text \<open>
  Modelled from the spec: the command steps of package \<open>step\<close> are not under src/. The
  spec names them "copy file with no-clobber" (do not overwrite an existing backup),
  "query device UUID", "run sed expression in place" (remove a record, append a record)
  and "list containers with filter". \<open>host\<close> is a small outside state on which they can
  be run: files as lists of lines, the answer of the UUID probe for each device, the
  answer of the container listing for each filter, and the date. The other commands
  succeed and leave it unchanged.
\<close>

record host =
  files :: "string \<rightharpoonup> string list"
  blkid :: "string \<Rightarrow> string"
  containers :: "string \<Rightarrow> string"
  today :: string

definition copy_file :: "string \<Rightarrow> string \<Rightarrow> bool \<Rightarrow> host \<Rightarrow> error option \<times> host" where
  "copy_file src dst noClobber h =
     (case files h src of
        None \<Rightarrow> (Some (Errno (ERR_CODE 0) src), h)
      | Some ls \<Rightarrow>
          if noClobber \<and> files h dst \<noteq> None then (None, h)
          else (None, h\<lparr>files := (files h)(dst \<mapsto> ls)\<rparr>))"

definition sed :: "string \<Rightarrow> string list \<Rightarrow> string list" where
  "sed expr ls =
     (if HasPrefix expr ''$ a '' then ls @ [drop 4 expr]
      else if HasPrefix expr ''/'' \<and> HasPrefix (rev expr) ''d/''
        then filter (\<lambda>l. \<not> Contains l (take (length expr - 3) (drop 1 expr))) ls
      else ls)"

fun sed_files :: "string \<Rightarrow> string list \<Rightarrow> host \<Rightarrow> host" where
  "sed_files expr [] h = h"
| "sed_files expr (f # fs) h =
     sed_files expr fs
       (case files h f of None \<Rightarrow> h | Some ls \<Rightarrow> h\<lparr>files := (files h)(f \<mapsto> sed expr ls)\<rparr>)"

fun host_remote :: "step \<Rightarrow> (svar \<Rightarrow> string) \<Rightarrow> host \<Rightarrow> error option \<times> string \<times> host" where
  "host_remote (CopyFile src dst nc _) m h =
     (case copy_file src dst nc h of (err, h') \<Rightarrow> (err, [], h'))"
| "host_remote (BlockId dev _ _ _ _) m h = (None, blkid h dev, h)"
| "host_remote (Sed fs x _ _) m h = (None, [], sed_files (m x) fs h)"
| "host_remote (ListContainers _ _ _ flt _ _) m h = (None, containers h flt, h)"
| "host_remote _ m h = (None, [], h)"

definition on_host :: "host collab" where
  "on_host =
     \<lparr>remote = host_remote,
      GetHost = (\<lambda>h. if h = ''node1'' then Inr (HostConfig ''root@node1'')
                     else Inl (Errno (ERR_CODE 1) h)),
      ExecOptions = ExecOpts [],
      GetFSTabPath = ''/etc/fstab'',
      Now = today,
      MD5Sum = (\<lambda>s. ''md5'' @ s),
      layout = \<lparr>ChunkfilePoolRootDir = ''/curvebs/chunkserver/data'',
                ToolsBinDir = ''/curvebs/tools/sbin'',
                FormatBinaryPath = ''/curvebs/chunkserver/sbin/curve_format'',
                ChunkfilePoolDir = ''/curvebs/chunkserver/data/chunkfilepool'',
                ChunkfilePoolMetaPath = ''/curvebs/chunkserver/data/chunkfilepool.meta''\<rparr>,
      FORMAT = ''#!/usr/bin/env bash''\<rparr>"

section \<open>The target script\<close>

text \<open>
  \<open>TARGET\<close> is a bash script; the model follows its control flow up to the choice of
  \<open>g_tid\<close>, which the four \<open>tgtadm\<close> calls after the loop then use.
  \<^item> \<open>[ $g_create == "true" ]\<close> expands \<open>$g_create\<close> unquoted: it is split into words at
    blanks, tabs and newlines. One word is compared with \<open>true\<close>; no word leaves
    \<open>[ == true ]\<close>, an error, so the branch is not taken; several words, or a word with a
    pathname pattern character, are outside the model.
  \<^item> \<open>output=$(...)\<close> keeps the standard output without its NUL bytes and without its
    trailing newlines, and \<open>$?\<close> is the exit status of the command.
  \<^item> \<open>for ((i=1;;i++))\<close> counts in 64-bit signed arithmetic, which wraps; the loop ends at
    the first \<open>i\<close> whose \<open>tgtadm ... --op show --tid $i\<close> fails, and runs forever if there
    is none.
\<close>

definition IFS :: "char \<Rightarrow> bool" where
  "IFS c = (c = CHR '' '' \<or> c = CHR 0x09 \<or> c = CHR 0x0A)"

fun fields :: "string \<Rightarrow> string \<Rightarrow> string list" where
  "fields [] w = (if w = [] then [] else [w])"
| "fields (c # cs) w =
     (if IFS c then (if w = [] then fields cs [] else w # fields cs [])
      else fields cs (w @ [c]))"

definition glob_char :: "char \<Rightarrow> bool" where
  "glob_char c = (c = CHR ''*'' \<or> c = CHR ''?'' \<or> c = CHR ''['')"

definition test_create :: "string \<Rightarrow> bool option" where
  "test_create g_create =
     (if list_ex glob_char g_create then None
      else (case fields g_create [] of
              [] \<Rightarrow> Some False
            | [w] \<Rightarrow> Some (w = ''true'')
            | _ \<Rightarrow> None))"

definition capture :: "string \<Rightarrow> string" where
  "capture out = rev (dropWhile (\<lambda>c. c = CHR 0x0A) (rev (filter (\<lambda>c. c \<noteq> CHR 0x00) out)))"

definition next_i :: "int \<Rightarrow> int" where
  "next_i i = (if i = 2 ^ 63 - 1 then - (2 ^ 63) else i + 1)"

partial_function (option) scan :: "(int \<Rightarrow> bool) \<Rightarrow> int \<Rightarrow> int option" where
  "scan shown i = (if \<not> shown i then Some i else scan shown (next_i i))"

declare scan.simps [code]

datatype script_outcome = Exit nat | Target int | Unmodelled

text \<open>
  \<open>create\<close> is the exit status and the standard output of \<open>curve_ops_tool create\<close>, should it
  run; \<open>shown i\<close> says that \<open>tgtadm ... --op show --tid i\<close> exits with status 0. The result
  is \<open>None\<close> when the loop never ends.
\<close>

definition choose_tid :: "(int \<Rightarrow> bool) \<Rightarrow> script_outcome option" where
  "choose_tid shown = map_option Target (scan shown 1)"

definition TARGET :: "string \<Rightarrow> nat \<times> string \<Rightarrow> (int \<Rightarrow> bool) \<Rightarrow> script_outcome option" where
  "TARGET g_create create shown =
     (case test_create g_create of
        None \<Rightarrow> Some Unmodelled
      | Some b \<Rightarrow>
          if b then
            (let output = capture (snd create) in
             if fst create \<noteq> 0 then
               (if output \<noteq> ''CreateFile fail with errCode: 101'' then Some (Exit 1)
                else choose_tid shown)
             else choose_tid shown)
          else choose_tid shown)"

section \<open>The spec's pattern, and inputs for concrete runs\<close>

text \<open>
  The spec's words for a well-formed UUID: the canonical 8-4-4-4-12 hexadecimal grouping.
  This is the spec's pattern, not the code's (\<open>match_REEGX_DEVICE_UUID\<close> above).
\<close>

definition hex_digit :: "char \<Rightarrow> bool" where
  "hex_digit c = (c \<in> set ''0123456789abcdefABCDEF'')"

definition spec_canonical_uuid :: "string \<Rightarrow> bool" where
  "spec_canonical_uuid u =
     (length u = 36 \<and> list_all hex_digit (filter (\<lambda>c. c \<noteq> CHR ''-'') u)
      \<and> map (\<lambda>i. u ! i) [8, 13, 18, 23] = ''----''
      \<and> length (filter (\<lambda>c. c = CHR ''-'') u) = 4)"

text \<open>The number of lines of a file that hold a record for a UUID.\<close>

definition records_for :: "string \<Rightarrow> string list \<Rightarrow> nat" where
  "records_for u ls = length (filter (\<lambda>l. Contains l (''UUID='' @ u)) ls)"

text \<open>
  A host whose fstab has one line and whose UUID probe answers \<open>u\<close>, an edit step for
  \<open>/dev/sdb\<close> on \<open>node1\<close>, a fresh run state, and a format configuration.
\<close>

definition host0 :: "string \<Rightarrow> host" where
  "host0 u =
     \<lparr>files = [''/etc/fstab'' \<mapsto> [''/dev/sda1  /  ext4  defaults  0  1'']],
      blkid = (\<lambda>_. u), containers = (\<lambda>_. []), today = ''2021-12-27''\<rparr>"

definition edit0 :: step2EditFSTab where
  "edit0 = \<lparr>host = ''node1'', device = ''/dev/sdb'', mountPoint = ''/data/chunkserver0'',
            oldUUID = OldUUID, skipAdd = False\<rparr>"

definition env0 :: "'w \<Rightarrow> 'w env" where
  "env0 w = \<lparr>vars = \<lparr>strs = (\<lambda>_. []), bools = (\<lambda>_. False)\<rparr>, world = w,
             mutex = False, tx_count = 0, trace = []\<rparr>"

definition fc0 :: FormatConfig where
  "fc0 = \<lparr>fcHost = ''node1'', fcDevice = ''/dev/sdb'', fcMountPoint = ''/data/chunkserver0'',
          fcFormatPercent = 80, fcContainerImage = ''opencurvedocker/curvebs:latest''\<rparr>"

text \<open>The kinds of the steps invoked between two states of a run, read off the log.\<close>

definition invoked :: "'w env \<Rightarrow> 'w env \<Rightarrow> kind list" where
  "invoked e e' = map (\<lambda>x. kind_of (fst x)) (drop (length (trace e)) (trace e'))"

definition zs :: string where
  "zs = ''zzzzzzzz-zzzz-zzzz-zzzz-zzzzzzzzzzzz''"

definition nbd :: string where
  "nbd = ''blkid: /dev/sdb: not a block device''"

definition good :: string where
  "good = ''82511eb8-e4e3-4a50-a736-d584fbf533fa''"

text \<open>The host \<open>host0 good\<close> on which a container for the device is already listed.\<close>

definition host1 :: host where
  "host1 = (host0 good)\<lparr>containers := (\<lambda>_. ''4f3a9c1d2b7e'')\<rparr>"

text \<open>
  \<open>host2\<close>: the backup of the day exists already, with other content. \<open>env_old\<close>: a run
  state in which the previous UUID of the device is known and equals the UUID the probe
  reports.
\<close>

definition host2 :: host where
  "host2 = (host0 good)\<lparr>files := (files (host0 good))
              (''/etc/fstab-2021-12-27.backup'' \<mapsto> [''an earlier backup''])\<rparr>"

definition env_old :: "host env" where
  "env_old = (env0 (host0 good))\<lparr>vars := \<lparr>strs = (\<lambda>_. [])(OldUUID := good), bools = (\<lambda>_. False)\<rparr>\<rparr>"

text \<open>
  \<open>probe_fails\<close>: the collaborators of \<open>on_host\<close>, but on this host the UUID probe fails: the
  \<open>BlockId\<close> step returns an error of its own and leaves the output of the probe in its
  \<open>Out\<close> variable.
\<close>

definition probe_fails :: "host collab" where
  "probe_fails = on_host\<lparr>remote :=
     (\<lambda>st m h. case st of
        BlockId dev _ _ _ _ \<Rightarrow> (Some (Errno (ERR_CODE 2) (blkid h dev)), blkid h dev, h)
      | _ \<Rightarrow> host_remote st m h)\<rparr>"

section \<open>The loop over the sub-steps\<close>

text \<open>
  Executing a step adds one entry to the log and leaves the mutex and the transaction
  count alone; so does the loop. A loop that returns nil has invoked every step, in
  order; a loop that returns an error has invoked the steps up to the first one that
  failed, and returns that step's error.
\<close>

lemma step_Execute_frame:
  assumes "step_Execute c st e = (r, e')"
  shows "trace e' = trace e @ [(st, mutex e)]" and "mutex e' = mutex e" and "tx_count e' = tx_count e"
  using assms
  by (cases st; auto simp: step_Execute_def command_Execute_def lambda_Execute_def logged_def
      split: prod.splits)+

lemma run_steps_frame:
  "run_steps c sts e = (r, e') \<Longrightarrow> mutex e' = mutex e \<and> tx_count e' = tx_count e"
proof (induction sts arbitrary: e)
  case Nil
  then show ?case by simp
next
  case (Cons st sts)
  obtain r1 e1 where s1: "step_Execute c st e = (r1, e1)" by (cases "step_Execute c st e")
  show ?case
  proof (cases r1)
    case None
    with Cons s1 step_Execute_frame[OF s1] show ?thesis by simp
  next
    case (Some err)
    with Cons.prems s1 step_Execute_frame[OF s1] show ?thesis by simp
  qed
qed

lemma run_steps_None:
  "run_steps c sts e = (None, e') \<Longrightarrow> trace e' = trace e @ map (\<lambda>st. (st, mutex e)) sts"
proof (induction sts arbitrary: e)
  case Nil
  then show ?case by simp
next
  case (Cons st sts)
  obtain r1 e1 where s1: "step_Execute c st e = (r1, e1)" by (cases "step_Execute c st e")
  show ?case
  proof (cases r1)
    case None
    with Cons s1 step_Execute_frame[OF s1] show ?thesis by simp
  next
    case (Some err)
    with Cons.prems s1 show ?thesis by simp
  qed
qed

lemma run_steps_Some:
  "run_steps c sts e = (Some err, e') \<Longrightarrow>
     \<exists>pre st post ek. sts = pre @ st # post \<and> run_steps c pre e = (None, ek)
        \<and> step_Execute c st ek = (Some err, e')
        \<and> trace e' = trace e @ map (\<lambda>st. (st, mutex e)) (pre @ [st])"
proof (induction sts arbitrary: e)
  case Nil
  then show ?case by simp
next
  case (Cons st sts)
  obtain r1 e1 where s1: "step_Execute c st e = (r1, e1)" by (cases "step_Execute c st e")
  show ?case
  proof (cases r1)
    case None
    with Cons.prems s1 have "run_steps c sts e1 = (Some err, e')" by simp
    from Cons.IH[OF this] obtain pre st' post ek where
      h: "sts = pre @ st' # post" "run_steps c pre e1 = (None, ek)"
         "step_Execute c st' ek = (Some err, e')"
         "trace e' = trace e1 @ map (\<lambda>st. (st, mutex e1)) (pre @ [st'])" by blast
    have "st # sts = (st # pre) @ st' # post" using h(1) by simp
    moreover have "run_steps c (st # pre) e = (None, ek)" using s1 None h(2) by simp
    moreover have "trace e' = trace e @ map (\<lambda>st. (st, mutex e)) ((st # pre) @ [st'])"
      using h(4) step_Execute_frame[OF s1] by simp
    ultimately show ?thesis using h(3) by blast
  next
    case (Some err')
    with Cons.prems s1 have eq: "err' = err" "e1 = e'" by simp_all
    have "st # sts = [] @ st # sts" by simp
    moreover have "run_steps c [] e = (None, e)" by simp
    moreover have "trace e' = trace e @ map (\<lambda>st. (st, mutex e)) ([] @ [st])"
      using step_Execute_frame[OF s1] eq by simp
    ultimately show ?thesis using s1 Some eq by blast
  qed
qed


section \<open>The edit step runs in one transaction (C1)\<close>

text \<open>
  C1. Every execution of \<open>step2EditFSTab.Execute\<close> begins exactly one transaction of the
  memory storage and has released its lock when it returns, whether the sub-steps
  succeeded or not. Every sub-step it invokes is invoked with the lock held. If it
  returns nil, all sub-steps were invoked in order; if it returns an error, that error is
  the one returned by the first failing sub-step, all sub-steps before it returned nil,
  and no sub-step after it was invoked.
\<close>

theorem Execute_one_transaction:
  assumes "Execute c s e = (r, e')"
  shows "\<not> mutex e' \<and> tx_count e' = tx_count e + 1 \<and>
    (case r of
       None \<Rightarrow>
         trace e' = trace e @ map (\<lambda>st. (st, True))
           (sub_steps c s (locals (e\<lparr>mutex := True, tx_count := tx_count e + 1\<rparr>)))
     | Some err \<Rightarrow>
         (\<exists>pre st post ek e''.
            sub_steps c s (locals (e\<lparr>mutex := True, tx_count := tx_count e + 1\<rparr>)) = pre @ st # post
            \<and> run_steps c pre (locals (e\<lparr>mutex := True, tx_count := tx_count e + 1\<rparr>)) = (None, ek)
            \<and> step_Execute c st ek = (Some err, e'')
            \<and> trace e' = trace e @ map (\<lambda>st. (st, True)) (pre @ [st])))"
proof -
  let ?E = "locals (e\<lparr>mutex := True, tx_count := tx_count e + 1\<rparr>)"
  obtain e1 where run: "run_steps c (sub_steps c s ?E) ?E = (r, e1)"
    and e': "e' = e1\<lparr>mutex := False\<rparr>"
    using assms by (auto simp: Execute_def TX_def execute_def split: prod.splits)
  have E: "mutex ?E = True" "tx_count ?E = tx_count e + 1" "trace ?E = trace e"
    by (simp_all add: locals_def)
  have 1: "\<not> mutex e'" using e' by simp
  have 2: "tx_count e' = tx_count e + 1" using run_steps_frame[OF run] E e' by simp
  show ?thesis
  proof (cases r)
    case None
    with run have "run_steps c (sub_steps c s ?E) ?E = (None, e1)" by simp
    from run_steps_None[OF this] have "trace e' = trace e @ map (\<lambda>st. (st, True)) (sub_steps c s ?E)"
      using E e' by simp
    with 1 2 None show ?thesis by simp
  next
    case (Some err)
    with run have "run_steps c (sub_steps c s ?E) ?E = (Some err, e1)" by simp
    from run_steps_Some[OF this] obtain pre st post ek where
      h: "sub_steps c s ?E = pre @ st # post" "run_steps c pre ?E = (None, ek)"
         "step_Execute c st ek = (Some err, e1)"
         "trace e1 = trace ?E @ map (\<lambda>st. (st, mutex ?E)) (pre @ [st])" by blast
    have "trace e' = trace e @ map (\<lambda>st. (st, True)) (pre @ [st])" using h(4) E e' by simp
    with h(1,2,3) have "\<exists>pre st post ek e''.
            sub_steps c s ?E = pre @ st # post
            \<and> run_steps c pre ?E = (None, ek)
            \<and> step_Execute c st ek = (Some err, e'')
            \<and> trace e' = trace e @ map (\<lambda>st. (st, True)) (pre @ [st])" by blast
    with 1 2 Some show ?thesis by simp
  qed
qed

lemmas run_defs = Execute_def TX_def execute_def sub_steps_def locals_def backup_def probe_def
  validate_def step_Execute_def command_Execute_def lambda_Execute_def logged_def
  checkDeviceUUID_def expression_def on_host_def host0_def edit0_def env0_def copy_file_def
  SIGNATURE_NOT_A_BLOCK_DEVICE_def F_def

theorem Execute_one_transaction_witness:
  "\<not> mutex (snd (Execute on_host edit0 (env0 (host0 ''x''))))
   \<and> tx_count (snd (Execute on_host edit0 (env0 (host0 ''x'')))) = 1
   \<and> fst (Execute on_host edit0 (env0 (host0 ''x'')))
       = Some (Errno ERR_GET_DEVICE_UUID_FAILED ''host=node1 device=/dev/sdb uuid=x'')"
proof -
  have r: "fst (Execute on_host edit0 (env0 (host0 ''x'')))
       = Some (Errno ERR_GET_DEVICE_UUID_FAILED ''host=node1 device=/dev/sdb uuid=x'')"
    by (simp add: run_defs)
  have "Execute on_host edit0 (env0 (host0 ''x''))
     = (fst (Execute on_host edit0 (env0 (host0 ''x''))), snd (Execute on_host edit0 (env0 (host0 ''x''))))"
    by simp
  from Execute_one_transaction[OF this] r show ?thesis by (simp add: env0_def)
qed

section \<open>What \<open>execute\<close> does\<close>

text \<open>
  No command step has a pointer to \<open>success\<close>, so the flag still has its zero value when
  the validation runs.
\<close>

lemma command_Execute_bools:
  "command_Execute c st e = (r, e') \<Longrightarrow> bools (vars e') = bools (vars e)"
  by (auto simp: command_Execute_def split: prod.splits option.splits)

lemma backup_Execute: "step_Execute c (backup c e0) e = command_Execute c (backup c e0) (logged (backup c e0) e)"
  by (simp add: step_Execute_def backup_def)

lemma probe_Execute: "step_Execute c (probe c s) e = command_Execute c (probe c s) (logged (probe c s) e)"
  by (simp add: step_Execute_def probe_def)

lemma backup_locals: "backup c (locals e) = backup c e"
  by (simp add: backup_def locals_def)

lemma checkDeviceUUID_unset:
  "\<not> bools m Success \<Longrightarrow>
   checkDeviceUUID h dev Success S_uuid m =
     (Some (if Contains (strs m S_uuid) SIGNATURE_NOT_A_BLOCK_DEVICE
            then F ERR_NOT_A_BLOCK_DEVICE (''host='' @ h @ '' device='' @ dev)
            else F ERR_GET_DEVICE_UUID_FAILED
                   (''host='' @ h @ '' device='' @ dev @ '' uuid='' @ strs m S_uuid)), m)"
  by (simp add: checkDeviceUUID_def)

lemma execute_outcome:
  assumes "execute c s e = (r, e')"
  shows "(case step_Execute c (backup c e) (locals e) of
       (Some err, e1) \<Rightarrow> r = Some err \<and> e' = e1
     | (None, e1) \<Rightarrow>
        (case step_Execute c (probe c s) e1 of
          (Some err, e2) \<Rightarrow> r = Some err \<and> e' = e2
        | (None, e2) \<Rightarrow>
            \<not> bools (vars e2) Success \<and>
            r = fst (checkDeviceUUID (host s) (device s) Success S_uuid (vars e2)) \<and>
            e' = logged (validate s) e2))"
proof -
  obtain r1 e1 where s1: "step_Execute c (backup c e) (locals e) = (r1, e1)"
    by (cases "step_Execute c (backup c e) (locals e)")
  obtain r2 e2 where s2: "step_Execute c (probe c s) e1 = (r2, e2)"
    by (cases "step_Execute c (probe c s) e1")
  have b1: "bools (vars e1) = bools (vars (locals e))"
    using s1 command_Execute_bools[of c "backup c e" "logged (backup c e) (locals e)" r1 e1]
    by (simp add: backup_Execute logged_def)
  have b2: "bools (vars e2) = bools (vars e1)"
    using s2 command_Execute_bools[of c "probe c s" "logged (probe c s) e1" r2 e2]
    by (simp add: probe_Execute logged_def)
  have unset: "\<not> bools (vars e2) Success" using b1 b2 by (simp add: locals_def)
  have run: "run_steps c (backup c e # probe c s # validate s # rest) (locals e) = (r, e')
     \<Longrightarrow> ?thesis" for rest
    using s1 s2 unset checkDeviceUUID_unset[OF unset, of "host s" "device s"]
    by (cases r1; cases r2)
       (auto simp: validate_def step_Execute_def[of c "Lambda f" for f] lambda_Execute_def logged_def)
  show ?thesis
    using assms run
    by (simp add: execute_def sub_steps_def backup_locals validate_def)
qed


text \<open>
  When the backup and the probe return nil, \<open>execute\<close> ends in the validation, with an
  error; and however the first two sub-steps end, \<open>execute\<close> returns an error after at
  most the first three sub-steps.
\<close>

lemma execute_validated:
  assumes b: "remote c (backup c e) (strs (vars (locals e))) (world e) = (None, o1, w1)"
      and p: "remote c (probe c s) (strs (vars (locals e))) w1 = (None, u, w2)"
  shows "\<exists>e'. execute c s e =
           (Some (if Contains u SIGNATURE_NOT_A_BLOCK_DEVICE
                  then F ERR_NOT_A_BLOCK_DEVICE (''host='' @ host s @ '' device='' @ device s)
                  else F ERR_GET_DEVICE_UUID_FAILED
                         (''host='' @ host s @ '' device='' @ device s @ '' uuid='' @ u)), e')
         \<and> trace e' = trace e @ [(backup c e, mutex e), (probe c s, mutex e), (validate s, mutex e)]
         \<and> world e' = w2 \<and> \<not> bools (vars e') Success \<and> strs (vars e') S_uuid = u"
proof -
  obtain r e' where ex: "execute c s e = (r, e')" by (cases "execute c s e")
  have w: "world (locals e) = world e" "trace (locals e) = trace e" "mutex (locals e) = mutex e"
    by (simp_all add: locals_def)
  have s1: "step_Execute c (backup c e) (locals e)
        = (None, (logged (backup c e) (locals e))\<lparr>world := w1\<rparr>)"
    using b by (simp add: backup_Execute command_Execute_def logged_def w) (simp add: backup_def)
  have s2: "step_Execute c (probe c s) ((logged (backup c e) (locals e))\<lparr>world := w1\<rparr>)
        = (None, (logged (probe c s) ((logged (backup c e) (locals e))\<lparr>world := w1\<rparr>))
             \<lparr>vars := (vars (locals e))\<lparr>strs := (strs (vars (locals e)))(S_uuid := u)\<rparr>, world := w2\<rparr>)"
    using p by (simp add: probe_Execute command_Execute_def logged_def) (simp add: probe_def)
  from execute_outcome[OF ex] s1 s2
  have "r = Some (if Contains u SIGNATURE_NOT_A_BLOCK_DEVICE
                  then F ERR_NOT_A_BLOCK_DEVICE (''host='' @ host s @ '' device='' @ device s)
                  else F ERR_GET_DEVICE_UUID_FAILED
                         (''host='' @ host s @ '' device='' @ device s @ '' uuid='' @ u))"
    and "e' = logged (validate s) ((logged (probe c s) ((logged (backup c e) (locals e))\<lparr>world := w1\<rparr>))
             \<lparr>vars := (vars (locals e))\<lparr>strs := (strs (vars (locals e)))(S_uuid := u)\<rparr>, world := w2\<rparr>)"
    by (simp_all add: checkDeviceUUID_unset)
  with ex show ?thesis by (simp add: logged_def locals_def)
qed

lemma execute_fails_before_Sed:
  assumes "execute c s e = (r, e')"
  shows "r \<noteq> None \<and> (\<exists>n\<le>3. trace e' = trace e @ map (\<lambda>st. (st, mutex e)) (take n [backup c e, probe c s, validate s]))"
proof -
  obtain r1 e1 where s1: "step_Execute c (backup c e) (locals e) = (r1, e1)"
    by (cases "step_Execute c (backup c e) (locals e)")
  obtain r2 e2 where s2: "step_Execute c (probe c s) e1 = (r2, e2)"
    by (cases "step_Execute c (probe c s) e1")
  have l: "trace (locals e) = trace e" "mutex (locals e) = mutex e" by (simp_all add: locals_def)
  note f1 = step_Execute_frame[OF s1] and f2 = step_Execute_frame[OF s2]
  show ?thesis
  proof (cases r1)
    case (Some err)
    with execute_outcome[OF assms] s1 f1 l
    have "r \<noteq> None" "trace e' = trace e @ map (\<lambda>st. (st, mutex e)) (take 1 [backup c e, probe c s, validate s])"
      by simp_all
    then show ?thesis by (intro conjI exI[of _ 1]) simp_all
  next
    case None
    show ?thesis
    proof (cases r2)
      case (Some err)
      with None execute_outcome[OF assms] s1 s2 f1 f2 l
      have "r \<noteq> None" "trace e' = trace e @ map (\<lambda>st. (st, mutex e)) (take 2 [backup c e, probe c s, validate s])"
        by simp_all
      then show ?thesis by (intro conjI exI[of _ 2]) simp_all
    next
      case n2: None
      with None execute_outcome[OF assms] s1 s2 f1 f2 l
      have "r \<noteq> None" "trace e' = trace e @ map (\<lambda>st. (st, mutex e)) (take 3 [backup c e, probe c s, validate s])"
        by (simp_all add: logged_def checkDeviceUUID_def)
      then show ?thesis by (intro conjI exI[of _ 3]) simp_all
    qed
  qed
qed


lemma Execute_validated:
  assumes b: "remote c (backup c e) (strs (vars (locals e))) (world e) = (None, o1, w1)"
      and p: "remote c (probe c s) (strs (vars (locals e))) w1 = (None, u, w2)"
  shows "\<exists>e'. Execute c s e =
           (Some (if Contains u SIGNATURE_NOT_A_BLOCK_DEVICE
                  then F ERR_NOT_A_BLOCK_DEVICE (''host='' @ host s @ '' device='' @ device s)
                  else F ERR_GET_DEVICE_UUID_FAILED
                         (''host='' @ host s @ '' device='' @ device s @ '' uuid='' @ u)), e')
         \<and> trace e' = trace e @ [(backup c e, True), (probe c s, True), (validate s, True)]
         \<and> world e' = w2"
proof -
  let ?E = "e\<lparr>mutex := True, tx_count := tx_count e + 1\<rparr>"
  have same: "backup c ?E = backup c e" "strs (vars (locals ?E)) = strs (vars (locals e))"
    "world ?E = world e" "trace ?E = trace e" "mutex ?E = True"
    by (simp_all add: backup_def locals_def)
  from execute_validated[of c ?E o1 w1 s u w2] b p same
  obtain e1 where "execute c s ?E =
           (Some (if Contains u SIGNATURE_NOT_A_BLOCK_DEVICE
                  then F ERR_NOT_A_BLOCK_DEVICE (''host='' @ host s @ '' device='' @ device s)
                  else F ERR_GET_DEVICE_UUID_FAILED
                         (''host='' @ host s @ '' device='' @ device s @ '' uuid='' @ u)), e1)"
     "trace e1 = trace e @ [(backup c e, True), (probe c s, True), (validate s, True)]"
     "world e1 = w2"
    by auto
  then show ?thesis by (simp add: Execute_def TX_def)
qed

lemma kinds3: "kind_of (backup c e) = K_CopyFile" "kind_of (probe c s) = K_BlockId"
  "kind_of (validate s) = K_Lambda"
  by (simp_all add: backup_def probe_def validate_def)

section \<open>The success flag is never written (C5)\<close>

text \<open>
  C5. In \<open>execute\<close> the flag \<open>success\<close> is declared and its address is given to the
  validation only; no sub-step writes it. So in every execution in which the backup and
  the probe return nil, the validation takes its probe-failed branch and returns an
  error: \<open>ERR_NOT_A_BLOCK_DEVICE\<close> when the probed string contains the marker,
  \<open>ERR_GET_DEVICE_UUID_FAILED\<close> otherwise. The flag is still unset afterwards, the steps
  invoked are the backup, the probe and the validation and no other (neither the
  expression step nor a \<open>Sed\<close>), and the outside state is the one the probe left.
\<close>

theorem success_flag_never_written:
  assumes "remote c (backup c e) (strs (vars (locals e))) (world e) = (None, o1, w1)"
      and "remote c (probe c s) (strs (vars (locals e))) w1 = (None, u, w2)"
  shows "\<exists>e'. execute c s e =
           (Some (if Contains u SIGNATURE_NOT_A_BLOCK_DEVICE
                  then F ERR_NOT_A_BLOCK_DEVICE (''host='' @ host s @ '' device='' @ device s)
                  else F ERR_GET_DEVICE_UUID_FAILED
                         (''host='' @ host s @ '' device='' @ device s @ '' uuid='' @ u)), e')
         \<and> \<not> bools (vars e') Success
         \<and> map fst (drop (length (trace e)) (trace e')) = [backup c e, probe c s, validate s]
         \<and> invoked e e' = [K_CopyFile, K_BlockId, K_Lambda]
         \<and> K_Sed \<notin> set (invoked e e')
         \<and> world e' = w2"
proof -
  from execute_validated[OF assms] obtain e' where
    h: "execute c s e =
           (Some (if Contains u SIGNATURE_NOT_A_BLOCK_DEVICE
                  then F ERR_NOT_A_BLOCK_DEVICE (''host='' @ host s @ '' device='' @ device s)
                  else F ERR_GET_DEVICE_UUID_FAILED
                         (''host='' @ host s @ '' device='' @ device s @ '' uuid='' @ u)), e')"
       "trace e' = trace e @ [(backup c e, mutex e), (probe c s, mutex e), (validate s, mutex e)]"
       "world e' = w2" "\<not> bools (vars e') Success"
    by blast
  have "invoked e e' = [K_CopyFile, K_BlockId, K_Lambda]"
    using h(2) by (simp add: invoked_def kinds3)
  with h show ?thesis by simp
qed

theorem success_flag_never_written_witness:
  "fst (execute on_host edit0 (env0 (host0 good)))
     = Some (Errno ERR_GET_DEVICE_UUID_FAILED (''host=node1 device=/dev/sdb uuid='' @ good))
   \<and> invoked (env0 (host0 good)) (snd (execute on_host edit0 (env0 (host0 good))))
     = [K_CopyFile, K_BlockId, K_Lambda]
   \<and> match_REEGX_DEVICE_UUID good"
proof -
  have b: "remote on_host (backup on_host (env0 (host0 good))) (strs (vars (locals (env0 (host0 good)))))
     (world (env0 (host0 good)))
     = (None, [], (host0 good)\<lparr>files := (files (host0 good))
          (''/etc/fstab-2021-12-27.backup'' \<mapsto> [''/dev/sda1  /  ext4  defaults  0  1''])\<rparr>)"
    by (simp add: run_defs)
  have p: "remote on_host (probe on_host edit0) (strs (vars (locals (env0 (host0 good)))))
     ((host0 good)\<lparr>files := (files (host0 good))
          (''/etc/fstab-2021-12-27.backup'' \<mapsto> [''/dev/sda1  /  ext4  defaults  0  1''])\<rparr>)
     = (None, good, (host0 good)\<lparr>files := (files (host0 good))
          (''/etc/fstab-2021-12-27.backup'' \<mapsto> [''/dev/sda1  /  ext4  defaults  0  1''])\<rparr>)"
    by (simp add: run_defs)
  have m: "match_REEGX_DEVICE_UUID good"
    by (simp add: match_REEGX_DEVICE_UUID_def group_then_def good_def dot_def dash_def
        rune_width_def first_def eval_nat_numeral)
  have nc: "\<not> Contains good SIGNATURE_NOT_A_BLOCK_DEVICE"
    by (simp add: good_def SIGNATURE_NOT_A_BLOCK_DEVICE_def)
  from success_flag_never_written[OF b p] nc m show ?thesis
    by (auto simp: F_def edit0_def)
qed

section \<open>A probe that names no block device (C3)\<close>

text \<open>
  When the probe step itself returns an error, the edit step returns that error after
  the backup and the probe, whatever the probed string holds: the validation is not
  reached. When the probe step returns nil and the string contains "not a block device",
  the validation, finding the flag unset, gives \<open>ERR_NOT_A_BLOCK_DEVICE\<close> with host and
  device, and no \<open>Sed\<close> runs.
\<close>

lemma Execute_probe_error:
  assumes b: "remote c (backup c e) (strs (vars (locals e))) (world e) = (None, o1, w1)"
      and p: "remote c (probe c s) (strs (vars (locals e))) w1 = (Some err, u, w2)"
  shows "\<exists>e'. Execute c s e = (Some err, e')
         \<and> trace e' = trace e @ [(backup c e, True), (probe c s, True)]
         \<and> world e' = w2 \<and> strs (vars e') S_uuid = u \<and> \<not> bools (vars e') Success"
proof -
  let ?E = "e\<lparr>mutex := True, tx_count := tx_count e + 1\<rparr>"
  obtain r e1 where ex: "execute c s ?E = (r, e1)" by (cases "execute c s ?E")
  have same: "backup c ?E = backup c e" "strs (vars (locals ?E)) = strs (vars (locals e))"
    "world (locals ?E) = world e" "trace (locals ?E) = trace e" "mutex (locals ?E) = True"
    by (simp_all add: backup_def locals_def)
  have s1: "step_Execute c (backup c e) (locals ?E)
        = (None, (logged (backup c e) (locals ?E))\<lparr>world := w1\<rparr>)"
    using b same by (simp add: backup_Execute command_Execute_def logged_def) (simp add: backup_def)
  have s2: "step_Execute c (probe c s) ((logged (backup c e) (locals ?E))\<lparr>world := w1\<rparr>)
        = (Some err, (logged (probe c s) ((logged (backup c e) (locals ?E))\<lparr>world := w1\<rparr>))
             \<lparr>vars := (vars (locals ?E))\<lparr>strs := (strs (vars (locals ?E)))(S_uuid := u)\<rparr>, world := w2\<rparr>)"
    using p same by (simp add: probe_Execute command_Execute_def logged_def) (simp add: probe_def)
  from execute_outcome[OF ex] s1 s2 same(1)
  have "r = Some err"
    and "e1 = (logged (probe c s) ((logged (backup c e) (locals ?E))\<lparr>world := w1\<rparr>))
             \<lparr>vars := (vars (locals ?E))\<lparr>strs := (strs (vars (locals ?E)))(S_uuid := u)\<rparr>, world := w2\<rparr>"
    by simp_all
  with ex show ?thesis by (simp add: Execute_def TX_def logged_def locals_def)
qed

lemma marker_reported_when_validation_runs:
  assumes "remote c (backup c e) (strs (vars (locals e))) (world e) = (None, o1, w1)"
      and "remote c (probe c s) (strs (vars (locals e))) w1 = (None, u, w2)"
      and "Contains u SIGNATURE_NOT_A_BLOCK_DEVICE"
  shows "(\<exists>e'. Execute c s e =
            (Some (F ERR_NOT_A_BLOCK_DEVICE (''host='' @ host s @ '' device='' @ device s)), e')
          \<and> K_Sed \<notin> set (invoked e e')
          \<and> world e' = w2)
       \<and> (\<forall>m. \<not> bools m Success \<and> strs m S_uuid = u \<longrightarrow>
            checkDeviceUUID (host s) (device s) Success S_uuid m =
              (Some (F ERR_NOT_A_BLOCK_DEVICE (''host='' @ host s @ '' device='' @ device s)), m))"
proof -
  from Execute_validated[OF assms(1,2)] assms(3) obtain e' where
    h: "Execute c s e =
          (Some (F ERR_NOT_A_BLOCK_DEVICE (''host='' @ host s @ '' device='' @ device s)), e')"
       "trace e' = trace e @ [(backup c e, True), (probe c s, True), (validate s, True)]"
       "world e' = w2"
    by auto
  have "invoked e e' = [K_CopyFile, K_BlockId, K_Lambda]"
    using h(2) by (simp add: invoked_def kinds3)
  with h have 1: "\<exists>e'. Execute c s e =
            (Some (F ERR_NOT_A_BLOCK_DEVICE (''host='' @ host s @ '' device='' @ device s)), e')
          \<and> K_Sed \<notin> set (invoked e e')
          \<and> world e' = w2" by simp
  have 2: "\<forall>m. \<not> bools m Success \<and> strs m S_uuid = u \<longrightarrow>
            checkDeviceUUID (host s) (device s) Success S_uuid m =
              (Some (F ERR_NOT_A_BLOCK_DEVICE (''host='' @ host s @ '' device='' @ device s)), m)"
    using assms(3) by (simp add: checkDeviceUUID_def)
  from 1 2 show ?thesis by blast
qed

lemma backup_on_host0:
  "remote on_host (backup on_host (env0 (host0 u))) (strs (vars (locals (env0 (host0 u)))))
     (world (env0 (host0 u)))
     = (None, [], (host0 u)\<lparr>files := (files (host0 u))
          (''/etc/fstab-2021-12-27.backup'' \<mapsto> [''/dev/sda1  /  ext4  defaults  0  1''])\<rparr>)"
  by (simp add: run_defs)

lemma probe_on_host0:
  "remote on_host (probe on_host edit0) (strs (vars (locals (env0 (host0 u)))))
     ((host0 u)\<lparr>files := (files (host0 u))
          (''/etc/fstab-2021-12-27.backup'' \<mapsto> [''/dev/sda1  /  ext4  defaults  0  1''])\<rparr>)
     = (None, u, (host0 u)\<lparr>files := (files (host0 u))
          (''/etc/fstab-2021-12-27.backup'' \<mapsto> [''/dev/sda1  /  ext4  defaults  0  1''])\<rparr>)"
  by (simp add: run_defs)

text \<open>
  C3 does not hold of the code. The validation has the branch the claim describes (flag
  unset and marker in the string give \<open>ERR_NOT_A_BLOCK_DEVICE\<close>), but the probe step is
  given no pointer to the flag, so a probe that fails can only report it by returning an
  error, and the loop returns that error before the validation runs. On a host whose
  probe fails with an output that contains "not a block device", the edit step returns
  the probe's own error, not \<open>ERR_NOT_A_BLOCK_DEVICE\<close>; the steps invoked are the backup and
  the probe, no \<open>Sed\<close> among them. In the state the run ends in, the validation would have
  given \<open>ERR_NOT_A_BLOCK_DEVICE\<close> with host and device.
\<close>

theorem failing_probe_returns_its_own_error:
  "Contains nbd SIGNATURE_NOT_A_BLOCK_DEVICE
   \<and> remote probe_fails (probe probe_fails edit0) (\<lambda>_. []) (host0 nbd)
       = (Some (Errno (ERR_CODE 2) nbd), nbd, host0 nbd)
   \<and> fst (Execute probe_fails edit0 (env0 (host0 nbd))) = Some (Errno (ERR_CODE 2) nbd)
   \<and> invoked (env0 (host0 nbd)) (snd (Execute probe_fails edit0 (env0 (host0 nbd))))
       = [K_CopyFile, K_BlockId]
   \<and> strs (vars (snd (Execute probe_fails edit0 (env0 (host0 nbd))))) S_uuid = nbd
   \<and> fst (checkDeviceUUID ''node1'' ''/dev/sdb'' Success S_uuid
            (vars (snd (Execute probe_fails edit0 (env0 (host0 nbd))))))
       = Some (Errno ERR_NOT_A_BLOCK_DEVICE ''host=node1 device=/dev/sdb'')"
proof -
  let ?w = "(host0 nbd)\<lparr>files := (files (host0 nbd))
          (''/etc/fstab-2021-12-27.backup'' \<mapsto> [''/dev/sda1  /  ext4  defaults  0  1''])\<rparr>"
  let ?m = "\<lparr>strs = (\<lambda>_. [])(S_uuid := nbd), bools = (\<lambda>_. False)\<rparr>"
  let ?e1 = "\<lparr>vars = ?m, world = ?w, mutex = False, tx_count = 1,
             trace = [(backup probe_fails (env0 (host0 nbd)), True), (probe probe_fails edit0, True)]\<rparr>"
  have m: "Contains nbd SIGNATURE_NOT_A_BLOCK_DEVICE"
    by (simp add: nbd_def SIGNATURE_NOT_A_BLOCK_DEVICE_def)
  have 0: "remote probe_fails (probe probe_fails edit0) (\<lambda>_. []) (host0 nbd)
       = (Some (Errno (ERR_CODE 2) nbd), nbd, host0 nbd)"
    by (simp add: probe_fails_def probe_def host0_def edit0_def)
  have 1: "Execute probe_fails edit0 (env0 (host0 nbd)) = (Some (Errno (ERR_CODE 2) nbd), ?e1)"
    by (simp add: run_defs probe_fails_def fun_eq_iff)
  have 2: "invoked (env0 (host0 nbd)) ?e1 = [K_CopyFile, K_BlockId]"
    by (simp add: invoked_def env0_def kinds3)
  have 3: "fst (checkDeviceUUID ''node1'' ''/dev/sdb'' Success S_uuid ?m)
       = Some (Errno ERR_NOT_A_BLOCK_DEVICE ''host=node1 device=/dev/sdb'')"
    using m by (simp add: checkDeviceUUID_def F_def)
  show ?thesis
    unfolding 1 snd_conv fst_conv 2 using m 0 3 by simp
qed

section \<open>A probed string that does not match the pattern (C4)\<close>

text \<open>
  C4, as amended. For every probed string that does not match the pattern of the code,
  \<open>^.{8}-.{4}-.{4}-.{4}-.{12}$\<close> (groups of any characters but the newline, not only
  hexadecimal digits), and does not contain "not a block device": once the backup and the
  probe have returned nil, the edit step fails with \<open>ERR_GET_DEVICE_UUID_FAILED\<close> carrying
  host, device and the string. The backup sub-step has run by then; no \<open>Sed\<close> sub-step runs.
  The validation gives this error for such a string whatever the value of the flag.
\<close>

theorem malformed_uuid_reported:
  assumes "remote c (backup c e) (strs (vars (locals e))) (world e) = (None, o1, w1)"
      and "remote c (probe c s) (strs (vars (locals e))) w1 = (None, u, w2)"
      and "\<not> match_REEGX_DEVICE_UUID u"
      and "\<not> Contains u SIGNATURE_NOT_A_BLOCK_DEVICE"
  shows "(\<exists>e'. Execute c s e =
            (Some (F ERR_GET_DEVICE_UUID_FAILED
                     (''host='' @ host s @ '' device='' @ device s @ '' uuid='' @ u)), e')
          \<and> invoked e e' = [K_CopyFile, K_BlockId, K_Lambda])
       \<and> (\<forall>m. strs m S_uuid = u \<longrightarrow>
            fst (checkDeviceUUID (host s) (device s) Success S_uuid m) =
              Some (F ERR_GET_DEVICE_UUID_FAILED
                     (''host='' @ host s @ '' device='' @ device s @ '' uuid='' @ u)))"
proof -
  from Execute_validated[OF assms(1,2)] assms(4) obtain e' where
    h: "Execute c s e =
          (Some (F ERR_GET_DEVICE_UUID_FAILED
                     (''host='' @ host s @ '' device='' @ device s @ '' uuid='' @ u)), e')"
       "trace e' = trace e @ [(backup c e, True), (probe c s, True), (validate s, True)]"
    by auto
  have "invoked e e' = [K_CopyFile, K_BlockId, K_Lambda]"
    using h(2) by (simp add: invoked_def kinds3)
  with h(1) have 1: "\<exists>e'. Execute c s e =
            (Some (F ERR_GET_DEVICE_UUID_FAILED
                     (''host='' @ host s @ '' device='' @ device s @ '' uuid='' @ u)), e')
          \<and> invoked e e' = [K_CopyFile, K_BlockId, K_Lambda]" by blast
  have 2: "\<forall>m. strs m S_uuid = u \<longrightarrow>
            fst (checkDeviceUUID (host s) (device s) Success S_uuid m) =
              Some (F ERR_GET_DEVICE_UUID_FAILED
                     (''host='' @ host s @ '' device='' @ device s @ '' uuid='' @ u))"
    using assms(3,4) by (simp add: checkDeviceUUID_def)
  from 1 2 show ?thesis by blast
qed

lemmas match_defs = match_REEGX_DEVICE_UUID_def group_then_def dot_def dash_def
  rune_width_def first_def eval_nat_numeral

theorem malformed_uuid_reported_witness:
  "fst (Execute on_host edit0 (env0 (host0 ''not-a-uuid'')))
     = Some (Errno ERR_GET_DEVICE_UUID_FAILED ''host=node1 device=/dev/sdb uuid=not-a-uuid'')
   \<and> fst (checkDeviceUUID ''node1'' ''/dev/sdb'' Success S_uuid
           \<lparr>strs = (\<lambda>_. ''not-a-uuid''), bools = (\<lambda>_. True)\<rparr>)
     = Some (Errno ERR_GET_DEVICE_UUID_FAILED ''host=node1 device=/dev/sdb uuid=not-a-uuid'')"
proof -
  have m: "\<not> match_REEGX_DEVICE_UUID ''not-a-uuid''"
    by (simp add: match_defs)
  have n: "\<not> Contains ''not-a-uuid'' SIGNATURE_NOT_A_BLOCK_DEVICE"
    by (simp add: SIGNATURE_NOT_A_BLOCK_DEVICE_def)
  from malformed_uuid_reported[OF backup_on_host0 probe_on_host0 m n] show ?thesis
    by (auto simp: F_def edit0_def)
qed

text \<open>
  The claim as first stated fails at the string of \<open>z\<close>s in 8-4-4-4-12 groups: it is not a
  canonical hexadecimal UUID, the edit step fails, and yet the backup has been made, the
  file \<open>/etc/fstab-2021-12-27.backup\<close> exists afterwards and did not before. The pattern of
  the code matches the string, and the validation accepts it when the flag is set.
\<close>

theorem backup_precedes_validation_counterexample:
  "\<not> spec_canonical_uuid zs
   \<and> fst (Execute on_host edit0 (env0 (host0 zs)))
       = Some (Errno ERR_GET_DEVICE_UUID_FAILED (''host=node1 device=/dev/sdb uuid='' @ zs))
   \<and> files (host0 zs) ''/etc/fstab-2021-12-27.backup'' = None
   \<and> files (world (snd (Execute on_host edit0 (env0 (host0 zs))))) ''/etc/fstab-2021-12-27.backup''
       = Some [''/dev/sda1  /  ext4  defaults  0  1'']
   \<and> K_CopyFile \<in> set (invoked (env0 (host0 zs)) (snd (Execute on_host edit0 (env0 (host0 zs)))))
   \<and> match_REEGX_DEVICE_UUID zs
   \<and> checkDeviceUUID ''node1'' ''/dev/sdb'' Success S_uuid \<lparr>strs = (\<lambda>_. zs), bools = (\<lambda>_. True)\<rparr>
       = (None, \<lparr>strs = (\<lambda>_. zs), bools = (\<lambda>_. True)\<rparr>)"
proof -
  have 1: "\<not> spec_canonical_uuid zs"
    by (simp add: spec_canonical_uuid_def zs_def hex_digit_def)
  have m: "match_REEGX_DEVICE_UUID zs"
    by (simp add: match_defs zs_def)
  have 2: "Execute on_host edit0 (env0 (host0 zs)) =
     (Some (Errno ERR_GET_DEVICE_UUID_FAILED (''host=node1 device=/dev/sdb uuid='' @ zs)),
      \<lparr>vars = \<lparr>strs = (\<lambda>_. [])(S_uuid := zs), bools = (\<lambda>_. False)\<rparr>,
       world = (host0 zs)\<lparr>files := (files (host0 zs))
          (''/etc/fstab-2021-12-27.backup'' \<mapsto> [''/dev/sda1  /  ext4  defaults  0  1''])\<rparr>,
       mutex = False, tx_count = 1,
       trace = [(backup on_host (env0 (host0 zs)), True), (probe on_host edit0, True),
                (validate edit0, True)]\<rparr>)"
    by (simp add: run_defs zs_def fun_eq_iff)
  have 3: "files (host0 zs) ''/etc/fstab-2021-12-27.backup'' = None"
    by (simp add: host0_def)
  have 4: "length (trace (env0 (host0 zs))) = 0"
    by (simp add: env0_def)
  show ?thesis
    using 1 m 3 by (simp add: 2 4 invoked_def kinds3 checkDeviceUUID_def)
qed

section \<open>The task that \<open>NewFormatChunkfilePoolTask\<close> builds\<close>

text \<open>The twelve \<open>AddStep\<close> calls leave this list of steps, and these variables.\<close>

lemma NewFormat_Inr:
  assumes "NewFormatChunkfilePoolTask c fc = Inr t"
  shows "steps t =
     [Basic (ListContainers True (CHR 0x27 # ''{{.ID}}'' @ [CHR 0x27]) True
        (''name='' @ device2ContainerName c (fcDevice fc)) OldContainerId (ExecOptions c)),
      Basic (Lambda (skipFormat OldContainerId)),
      Basic (BlockId (fcDevice fc) ''value'' ''UUID'' OldUUID (ExecOptions c)),
      Basic (UmountFilesystem [fcDevice fc] True True (ExecOptions c)),
      Basic (CreateDirectory [fcMountPoint fc] (ExecOptions c)),
      Basic (CreateFilesystem (fcDevice fc) (ExecOptions c)),
      Basic (MountFilesystem (fcDevice fc) (fcMountPoint fc) (ExecOptions c)),
      EditFSTab \<lparr>host = fcHost fc, device = fcDevice fc, mountPoint = fcMountPoint fc,
                 oldUUID = OldUUID, skipAdd = False\<rparr>,
      Basic (PullImage (fcContainerImage fc) (ExecOptions c)),
      Basic (CreateContainer (fcContainerImage fc)
        (ToolsBinDir (layout c) @ ''/format.sh'' @ '' '' @ FormatBinaryPath (layout c)
           @ '' '' @ Sprintf_d (fcFormatPercent fc) @ '' '' @ Sprintf_d DEFAULT_CHUNKFILE_SIZE
           @ '' '' @ ChunkfilePoolDir (layout c) @ '' '' @ ChunkfilePoolMetaPath (layout c))
        ''/bin/bash'' (device2ContainerName c (fcDevice fc)) True
        [Volume (fcMountPoint fc) (ChunkfilePoolRootDir (layout c))] ContainerId (ExecOptions c)),
      Basic (InstallFile ContainerId (ToolsBinDir (layout c) @ ''/format.sh'') FormatScript
        (ExecOptions c)),
      Basic (StartContainer ContainerId (ExecOptions c))]"
    and "heap t = \<lparr>strs = (\<lambda>_. [])(FormatScript := FORMAT c), bools = (\<lambda>_. False)\<rparr>"
    and "\<exists>hc. GetHost c (fcHost fc) = Inr hc \<and> sshConfig t = GetSSHConfig hc"
  using assms
  by (auto simp: NewFormatChunkfilePoolTask_def Let_def AddStep_def NewTask_def split: sum.splits)

lemma NewFormat_Inl:
  "GetHost c (fcHost fc) = Inl err \<Longrightarrow> NewFormatChunkfilePoolTask c fc = Inl err"
  by (simp add: NewFormatChunkfilePoolTask_def)

lemma NewFormat_total:
  "GetHost c (fcHost fc) = Inr hc \<Longrightarrow> \<exists>t. NewFormatChunkfilePoolTask c fc = Inr t"
  by (simp add: NewFormatChunkfilePoolTask_def Let_def)

section \<open>An existing container skips the task (C2)\<close>

text \<open>
  C2. For every device and host: when the list-containers step of the format task returns
  nil and a non-empty container id for the name derived from the device, executing the
  task yields the skip outcome (the skip lambda returns \<open>ERR_SKIP_TASK\<close>). The steps
  invoked are the listing and the skip check and no other: no UUID capture, unmount,
  mkdir, mkfs, mount, fstab edit (no transaction is begun), pull, create, install or
  start; the outside state is the one the listing left.
\<close>

theorem existing_container_skips:
  assumes "NewFormatChunkfilePoolTask c fc = Inr t"
      and "remote c (ListContainers True (CHR 0x27 # ''{{.ID}}'' @ [CHR 0x27]) True
             (''name='' @ device2ContainerName c (fcDevice fc)) OldContainerId (ExecOptions c))
             (strs (heap t)) w = (None, cid, w')"
      and "cid \<noteq> []"
  shows "\<exists>e'. Task_Execute c t w = (Skipped, e')
           \<and> map (\<lambda>x. kind_of (fst x)) (trace e') = [K_ListContainers, K_Lambda]
           \<and> map fst (trace e') = [ListContainers True (CHR 0x27 # ''{{.ID}}'' @ [CHR 0x27]) True
                 (''name='' @ device2ContainerName c (fcDevice fc)) OldContainerId (ExecOptions c),
               Lambda (skipFormat OldContainerId)]
           \<and> world e' = w' \<and> tx_count e' = 0 \<and> strs (vars e') OldContainerId = cid"
  using assms(2,3)
  by (simp add: Task_Execute_def NewFormat_Inr[OF assms(1)] step_Execute_def command_Execute_def
      lambda_Execute_def logged_def skipFormat_def)

theorem existing_container_skips_witness:
  "(case NewFormatChunkfilePoolTask on_host fc0 of
      Inl err \<Rightarrow> False
    | Inr t \<Rightarrow> fst (Task_Execute on_host t host1) = Skipped
         \<and> map (\<lambda>x. kind_of (fst x)) (trace (snd (Task_Execute on_host t host1)))
             = [K_ListContainers, K_Lambda]
         \<and> world (snd (Task_Execute on_host t host1)) = host1)"
proof -
  obtain t where t: "NewFormatChunkfilePoolTask on_host fc0 = Inr t"
    using NewFormat_total[of on_host fc0] by (auto simp: on_host_def fc0_def)
  have l: "remote on_host (ListContainers True (CHR 0x27 # ''{{.ID}}'' @ [CHR 0x27]) True
             (''name='' @ device2ContainerName on_host (fcDevice fc0)) OldContainerId (ExecOptions on_host))
             (strs (heap t)) host1 = (None, ''4f3a9c1d2b7e'', host1)"
    by (simp add: on_host_def host1_def)
  from existing_container_skips[OF t l] t show ?thesis by auto
qed

section \<open>The order of the steps (C8)\<close>

text \<open>
  C8. \<open>NewFormatChunkfilePoolTask\<close> assembles its task in this order: list containers by
  the derived name, skip check on the listing's output, capture the device's UUID,
  unmount, create the mount directory, make the filesystem, mount, the fstab-edit
  composite (given the captured UUID), pull the image, create the container, install the
  script into the created container, start that container. The create step precedes the
  install and start steps, and the only start step is the last step.
\<close>

theorem task_step_order:
  assumes "NewFormatChunkfilePoolTask c fc = Inr t"
  shows "map Kind (steps t) =
           [K_ListContainers, K_Lambda, K_BlockId, K_UmountFilesystem, K_CreateDirectory,
            K_CreateFilesystem, K_MountFilesystem, K_Step2EditFSTab, K_PullImage,
            K_CreateContainer, K_InstallFile, K_StartContainer]
       \<and> steps t ! 0 = Basic (ListContainers True (CHR 0x27 # ''{{.ID}}'' @ [CHR 0x27]) True
            (''name='' @ device2ContainerName c (fcDevice fc)) OldContainerId (ExecOptions c))
       \<and> steps t ! 1 = Basic (Lambda (skipFormat OldContainerId))
       \<and> steps t ! 2 = Basic (BlockId (fcDevice fc) ''value'' ''UUID'' OldUUID (ExecOptions c))
       \<and> steps t ! 7 = EditFSTab \<lparr>host = fcHost fc, device = fcDevice fc,
            mountPoint = fcMountPoint fc, oldUUID = OldUUID, skipAdd = False\<rparr>
       \<and> (\<exists>cmd. steps t ! 9 = Basic (CreateContainer (fcContainerImage fc) cmd ''/bin/bash''
            (device2ContainerName c (fcDevice fc)) True
            [Volume (fcMountPoint fc) (ChunkfilePoolRootDir (layout c))] ContainerId (ExecOptions c)))
       \<and> (\<exists>path. steps t ! 10 = Basic (InstallFile ContainerId path FormatScript (ExecOptions c)))
       \<and> last (steps t) = Basic (StartContainer ContainerId (ExecOptions c))
       \<and> filter (\<lambda>i. Kind (steps t ! i) = K_StartContainer) [0..<length (steps t)] = [11]"
  by (simp add: NewFormat_Inr[OF assms] upt_rec)

theorem task_step_order_witness:
  "(case NewFormatChunkfilePoolTask on_host fc0 of
      Inl err \<Rightarrow> False
    | Inr t \<Rightarrow> map Kind (steps t) =
           [K_ListContainers, K_Lambda, K_BlockId, K_UmountFilesystem, K_CreateDirectory,
            K_CreateFilesystem, K_MountFilesystem, K_Step2EditFSTab, K_PullImage,
            K_CreateContainer, K_InstallFile, K_StartContainer])"
proof -
  obtain t where t: "NewFormatChunkfilePoolTask on_host fc0 = Inr t"
    using NewFormat_total[of on_host fc0] by (auto simp: on_host_def fc0_def)
  from task_step_order[OF t] t show ?thesis by simp
qed

section \<open>What the constructor returns (C10)\<close>

text \<open>
  C10. \<open>NewFormatChunkfilePoolTask\<close> returns an error (and no task) exactly when the host
  lookup fails, and then it returns the lookup's error; in every other case it returns a
  task of exactly 12 steps, bound to the host's connection parameters. The constructor is
  a function of the configuration and the lookup alone: it has no access to the outside
  state, so it performs no remote operation.
\<close>

theorem constructor_result:
  "(case GetHost c (fcHost fc) of
      Inl err \<Rightarrow> NewFormatChunkfilePoolTask c fc = Inl err
    | Inr hc \<Rightarrow> (\<exists>t. NewFormatChunkfilePoolTask c fc = Inr t \<and> length (steps t) = 12
                    \<and> sshConfig t = GetSSHConfig hc))
   \<and> ((\<exists>err. NewFormatChunkfilePoolTask c fc = Inl err) = (\<exists>err. GetHost c (fcHost fc) = Inl err))"
proof (cases "GetHost c (fcHost fc)")
  case (Inl err)
  then show ?thesis by (simp add: NewFormat_Inl)
next
  case (Inr hc)
  then obtain t where t: "NewFormatChunkfilePoolTask c fc = Inr t"
    using NewFormat_total by blast
  from NewFormat_Inr[OF t] Inr t show ?thesis by simp
qed

theorem constructor_result_witness:
  "(\<exists>t. NewFormatChunkfilePoolTask on_host fc0 = Inr t \<and> length (steps t) = 12
        \<and> sshConfig t = ''root@node1'')
   \<and> NewFormatChunkfilePoolTask on_host (fc0\<lparr>fcHost := ''node9''\<rparr>)
       = Inl (Errno (ERR_CODE 1) ''node9'')"
proof -
  have 1: "GetHost on_host (fcHost fc0) = Inr (HostConfig ''root@node1'')"
    by (simp add: on_host_def fc0_def)
  have 2: "GetHost on_host (fcHost (fc0\<lparr>fcHost := ''node9''\<rparr>)) = Inl (Errno (ERR_CODE 1) ''node9'')"
    by (simp add: on_host_def)
  from constructor_result[of on_host fc0] constructor_result[of on_host "fc0\<lparr>fcHost := ''node9''\<rparr>"]
  show ?thesis unfolding 1 2 by simp
qed

section \<open>The dated backup (C6)\<close>

text \<open>
  C6. The first sub-step of the edit step is a copy of the configuration file to the path
  made of the file's path, a dash, the current date and \<open>.backup\<close>, with \<open>NoClobber\<close> set.
  On a host that runs the copy as the spec describes it: if a backup for that date
  exists already, the host is left unchanged; if none exists and the configuration file
  does, the copy succeeds and the backup holds the file's content.
\<close>

theorem backup_is_dated_no_clobber:
  assumes "remote c = host_remote"
  shows "hd (sub_steps c s e) =
           CopyFile (GetFSTabPath c) (GetFSTabPath c @ ''-'' @ Now c (world e) @ ''.backup'')
             True (ExecOptions c)
       \<and> (files (world e) (GetFSTabPath c @ ''-'' @ Now c (world e) @ ''.backup'') \<noteq> None \<longrightarrow>
            world (snd (step_Execute c (hd (sub_steps c s e)) e)) = world e)
       \<and> (\<forall>ls. files (world e) (GetFSTabPath c @ ''-'' @ Now c (world e) @ ''.backup'') = None
                \<and> files (world e) (GetFSTabPath c) = Some ls \<longrightarrow>
            fst (step_Execute c (hd (sub_steps c s e)) e) = None
            \<and> world (snd (step_Execute c (hd (sub_steps c s e)) e)) =
                (world e)\<lparr>files := (files (world e))
                   (GetFSTabPath c @ ''-'' @ Now c (world e) @ ''.backup'' \<mapsto> ls)\<rparr>)"
  using assms
  by (auto simp: sub_steps_def backup_def step_Execute_def command_Execute_def logged_def
      copy_file_def split: option.splits)

theorem backup_is_dated_no_clobber_witness:
  "hd (sub_steps on_host edit0 (env0 host2)) =
      CopyFile ''/etc/fstab'' ''/etc/fstab-2021-12-27.backup'' True (ExecOpts [])
   \<and> world (snd (step_Execute on_host (hd (sub_steps on_host edit0 (env0 host2))) (env0 host2)))
       = host2
   \<and> files host2 ''/etc/fstab-2021-12-27.backup'' = Some [''an earlier backup'']
   \<and> files (world (snd (step_Execute on_host (hd (sub_steps on_host edit0 (env0 (host0 good))))
         (env0 (host0 good))))) ''/etc/fstab-2021-12-27.backup''
       = Some [''/dev/sda1  /  ext4  defaults  0  1'']"
proof -
  have r: "remote on_host = host_remote" by (simp add: on_host_def)
  have p: "GetFSTabPath on_host @ ''-'' @ Now on_host (world (env0 h)) @ ''.backup''
      = ''/etc/fstab-'' @ today h @ ''.backup''" for h
    by (simp add: on_host_def env0_def)
  have t: "today host2 = ''2021-12-27''" "today (host0 good) = ''2021-12-27''"
    by (simp_all add: host2_def host0_def)
  have f: "files host2 ''/etc/fstab-2021-12-27.backup'' = Some [''an earlier backup'']"
    "files (host0 good) ''/etc/fstab-2021-12-27.backup'' = None"
    "files (host0 good) ''/etc/fstab'' = Some [''/dev/sda1  /  ext4  defaults  0  1'']"
    by (simp_all add: host2_def host0_def)
  have w: "world (env0 h) = h" for h :: host by (simp add: env0_def)
  have o: "GetFSTabPath on_host = ''/etc/fstab''" "ExecOptions on_host = ExecOpts []"
    "Now on_host = today"
    by (simp_all add: on_host_def)
  have A: "world (snd (step_Execute on_host (hd (sub_steps on_host edit0 (env0 host2))) (env0 host2)))
       = host2"
    using backup_is_dated_no_clobber[OF r, of edit0 "env0 host2"] by (clarsimp simp: w o t f)
  have B: "world (snd (step_Execute on_host (hd (sub_steps on_host edit0 (env0 (host0 good))))
         (env0 (host0 good))))
       = (host0 good)\<lparr>files := (files (host0 good))
            (''/etc/fstab-2021-12-27.backup'' \<mapsto> [''/dev/sda1  /  ext4  defaults  0  1''])\<rparr>"
    using backup_is_dated_no_clobber[OF r, of edit0 "env0 (host0 good)"] by (clarsimp simp: w o t f)
  have C: "hd (sub_steps on_host edit0 (env0 host2)) =
      CopyFile ''/etc/fstab'' ''/etc/fstab-2021-12-27.backup'' True (ExecOpts [])"
    using backup_is_dated_no_clobber[OF r, of edit0 "env0 host2"] by (simp add: w o t)
  show ?thesis
    unfolding A B using C f(1) by simp
qed

section \<open>Two runs of the edit step (C7)\<close>

text \<open>
  C7 does not hold of the code. The list of sub-steps ends with the \<open>Sed\<close> that removes
  the record of the previous UUID and the \<open>Sed\<close> that appends the new record, but they
  are never reached: the validation fails first, the flag \<open>success\<close> being unset. On a
  host whose probe reports a well-formed UUID, with that UUID as the previous one, two
  runs of the edit step both return \<open>ERR_GET_DEVICE_UUID_FAILED\<close>, invoke no \<open>Sed\<close>, and
  leave the configuration file with no record for the UUID, where the claim says one.
\<close>

theorem edit_twice_leaves_no_record:
  "match_REEGX_DEVICE_UUID good
   \<and> map kind_of (sub_steps on_host edit0 (locals env_old))
       = [K_CopyFile, K_BlockId, K_Lambda, K_Lambda, K_Sed, K_Sed]
   \<and> fst (Execute on_host edit0 env_old)
       = Some (Errno ERR_GET_DEVICE_UUID_FAILED (''host=node1 device=/dev/sdb uuid='' @ good))
   \<and> fst (Execute on_host edit0 (snd (Execute on_host edit0 env_old)))
       = Some (Errno ERR_GET_DEVICE_UUID_FAILED (''host=node1 device=/dev/sdb uuid='' @ good))
   \<and> files (world (snd (Execute on_host edit0 (snd (Execute on_host edit0 env_old)))))
        ''/etc/fstab'' = Some [''/dev/sda1  /  ext4  defaults  0  1'']
   \<and> records_for good [''/dev/sda1  /  ext4  defaults  0  1''] = 0
   \<and> invoked env_old (snd (Execute on_host edit0 (snd (Execute on_host edit0 env_old))))
       = [K_CopyFile, K_BlockId, K_Lambda, K_CopyFile, K_BlockId, K_Lambda]"
proof -
  let ?w = "(host0 good)\<lparr>files := (files (host0 good))
          (''/etc/fstab-2021-12-27.backup'' \<mapsto> [''/dev/sda1  /  ext4  defaults  0  1''])\<rparr>"
  let ?m = "\<lparr>strs = (\<lambda>_. [])(OldUUID := good, S_uuid := good), bools = (\<lambda>_. False)\<rparr>"
  let ?t = "[(backup on_host (env0 (host0 good)), True), (probe on_host edit0, True),
             (validate edit0, True)]"
  let ?err = "Some (Errno ERR_GET_DEVICE_UUID_FAILED (''host=node1 device=/dev/sdb uuid='' @ good))"
  let ?e1 = "\<lparr>vars = ?m, world = ?w, mutex = False, tx_count = 1, trace = ?t\<rparr>"
  let ?e2 = "\<lparr>vars = ?m, world = ?w, mutex = False, tx_count = 2, trace = ?t @ ?t\<rparr>"
  have m: "match_REEGX_DEVICE_UUID good"
    by (simp add: match_defs good_def)
  have 0: "map kind_of (sub_steps on_host edit0 (locals env_old))
       = [K_CopyFile, K_BlockId, K_Lambda, K_Lambda, K_Sed, K_Sed]"
    by (simp add: sub_steps_def kinds3 env_old_def env0_def locals_def edit0_def good_def)
  have 1: "Execute on_host edit0 env_old = (?err, ?e1)"
    by (simp add: run_defs env_old_def good_def fun_eq_iff)
  have 2: "Execute on_host edit0 ?e1 = (?err, ?e2)"
    by (simp add: run_defs good_def fun_eq_iff)
  have 3: "records_for good [''/dev/sda1  /  ext4  defaults  0  1''] = 0"
    by (simp add: records_for_def good_def)
  have 4: "invoked env_old ?e2
      = [K_CopyFile, K_BlockId, K_Lambda, K_CopyFile, K_BlockId, K_Lambda]"
    by (simp add: invoked_def env_old_def env0_def kinds3)
  have 5: "files (world ?e2) ''/etc/fstab'' = Some [''/dev/sda1  /  ext4  defaults  0  1'']"
    by (simp add: host0_def)
  show ?thesis
    unfolding 1 snd_conv 2 fst_conv 4 using m 0 3 5 by simp
qed

section \<open>The target script (C9)\<close>

text \<open>
  The loop reaches the first number from its start whose target does not show, as long
  as that number is below the wrap-around of the counter.
\<close>

lemma scan_finds:
  "i \<le> n \<Longrightarrow> n \<le> 2 ^ 63 - 1 \<Longrightarrow> \<not> shown n \<Longrightarrow> (\<forall>m. i \<le> m \<and> m < n \<longrightarrow> shown m)
     \<Longrightarrow> scan shown i = Some n"
proof (induction "nat (n - i)" arbitrary: i)
  case 0
  then have "i = n" by simp
  with 0 show ?case by (simp add: scan.simps)
next
  case (Suc k)
  then have lt: "i < n" by linarith
  with Suc.prems have sh: "shown i" by simp
  have nx: "next_i i = i + 1" using lt Suc.prems(2) by (simp add: next_i_def)
  have "scan shown (i + 1) = Some n"
    using Suc.hyps(2) lt Suc.prems by (intro Suc.hyps(1)) auto
  with sh nx show ?case by (subst scan.simps) simp
qed

lemma test_create_true: "test_create ''true'' = Some True"
  by (simp add: test_create_def glob_char_def IFS_def)

text \<open>
  C9. When the create flag is \<open>true\<close>: a failing volume creation makes the script exit
  with status 1 exactly when the captured output is not the string
  "CreateFile fail with errCode: 101"; a successful creation never does. When the
  creation succeeded or its failure is tolerated, and \<open>n\<close> is the smallest positive number
  whose target does not show, the script chooses \<open>n\<close> as the target id.
\<close>

theorem target_script_create_and_tid:
  "(fst create \<noteq> 0 \<longrightarrow>
      (TARGET ''true'' create shown = Some (Exit 1))
        = (capture (snd create) \<noteq> ''CreateFile fail with errCode: 101''))
   \<and> (fst create = 0 \<longrightarrow> TARGET ''true'' create shown \<noteq> Some (Exit 1))
   \<and> ((fst create = 0 \<or> capture (snd create) = ''CreateFile fail with errCode: 101'')
        \<and> 1 \<le> n \<and> n \<le> 2 ^ 63 - 1 \<and> \<not> shown n \<and> (\<forall>m. 1 \<le> m \<and> m < n \<longrightarrow> shown m)
      \<longrightarrow> TARGET ''true'' create shown = Some (Target n))"
proof -
  have 3: "TARGET ''true'' create shown = Some (Target n)"
    if "fst create = 0 \<or> capture (snd create) = ''CreateFile fail with errCode: 101''"
      "1 \<le> n" "n \<le> 2 ^ 63 - 1" "\<not> shown n" "\<forall>m. 1 \<le> m \<and> m < n \<longrightarrow> shown m"
  proof -
    have "scan shown 1 = Some n" using that(2-5) by (intro scan_finds) auto
    with that(1) show ?thesis by (auto simp: TARGET_def choose_tid_def test_create_true)
  qed
  have 1: "fst create \<noteq> 0 \<Longrightarrow>
      (TARGET ''true'' create shown = Some (Exit 1))
        = (capture (snd create) \<noteq> ''CreateFile fail with errCode: 101'')"
    by (auto simp: TARGET_def choose_tid_def test_create_true)
  have 2: "fst create = 0 \<Longrightarrow> TARGET ''true'' create shown \<noteq> Some (Exit 1)"
    by (auto simp: TARGET_def choose_tid_def test_create_true)
  from 1 2 3 show ?thesis by blast
qed

theorem target_script_create_and_tid_witness:
  "TARGET ''true'' (1, ''CreateFile fail with errCode: 101'' @ [CHR 0x0A]) (\<lambda>i. i < 3)
     = Some (Target 3)
   \<and> TARGET ''true'' (0, ''ok'') (\<lambda>i. i < 3) = Some (Target 3)
   \<and> TARGET ''true'' (1, ''CreateFile fail with errCode: 102'') (\<lambda>i. i < 3) = Some (Exit 1)"
proof -
  have c: "capture (''CreateFile fail with errCode: 101'' @ [CHR 0x0A])
      = ''CreateFile fail with errCode: 101''"
    "capture ''CreateFile fail with errCode: 102'' \<noteq> ''CreateFile fail with errCode: 101''"
    by (simp_all add: capture_def)
  from target_script_create_and_tid[of "(1, ''CreateFile fail with errCode: 101'' @ [CHR 0x0A])" "\<lambda>i. i < 3" 3]
       target_script_create_and_tid[of "(0, ''ok'')" "\<lambda>i. i < 3" 3]
       target_script_create_and_tid[of "(1, ''CreateFile fail with errCode: 102'')" "\<lambda>i. i < 3" 3]
  show ?thesis by (simp add: capture_def)
qed

end
